theory Spec2Isabelle
  imports Complex_Main "HOL-Library.AList" "HOL-Library.Char_ord" "HOL-Library.List_Lexorder"
    "HOL-Library.Multiset"
begin

section \<open>JavaScript values\<close>

text \<open>
  A JavaScript number is an IEEE double. The model keeps the three special values apart
  and takes every finite double as the real number it denotes: arithmetic on finite
  numbers is exact real arithmetic (the rounding error of a double operation is left out).
  Strings are lists of 8-bit characters; the case mappings and the character classes of
  the regular expressions are the ASCII ones.
\<close>

text \<open>\<open>Fin r\<close> is the finite number \<open>r\<close>; the others are \<^verbatim>\<open>Infinity\<close>, \<^verbatim>\<open>-Infinity\<close> and \<^verbatim>\<open>NaN\<close>.\<close>

datatype jsnum = Fin real | PosInf | NegInf | NaN

datatype jsval = JUndefined | JNull | JBool bool | JStr string | JNumber jsnum

text \<open>\<^verbatim>\<open>if (v)\<close>: the truthiness of a value.\<close>

fun truthy :: "jsval \<Rightarrow> bool" where
  "truthy JUndefined = False"
| "truthy JNull = False"
| "truthy (JBool b) = b"
| "truthy (JStr s) = (s \<noteq> [])"
| "truthy (JNumber (Fin r)) = (r \<noteq> 0)"
| "truthy (JNumber NaN) = False"
| "truthy (JNumber PosInf) = True"
| "truthy (JNumber NegInf) = True"

text \<open>\<^verbatim>\<open>Math.round(x)\<close>: the nearest integer, a tie going up.\<close>

definition js_round :: "real \<Rightarrow> int" where
  "js_round x = \<lfloor>x + 1 / 2\<rfloor>"

text \<open>
  \<^verbatim>\<open>Math.round(x * 10) / 10\<close>: rounding to one decimal. The model rounds the exact real;
  the code rounds the double, which can fall on the other side of a tie.
\<close>

definition round1 :: "real \<Rightarrow> real" where
  "round1 x = real_of_int (js_round (x * 10)) / 10"

section \<open>The rating normalizer\<close>

subsection \<open>Configuration (the \<^verbatim>\<open>CONFIG\<close> object)\<close>

definition VIEW_THRESHOLD :: real where
  "VIEW_THRESHOLD = 1000"

definition DEFAULT_RATING :: real where
  "DEFAULT_RATING = 6"

definition VIEWS_multiplier :: real where
  "VIEWS_multiplier = 3 / 2"

definition VIEWS_maxValue :: real where
  "VIEWS_maxValue = 7"

text \<open>
  \<^verbatim>\<open>CONFIG.PROVIDER_WEIGHTS[provider] || 1.0\<close>: the table has hmm: 5.0, htv: 1.0 and
  hse: 1.0, every other provider prefix gets 1.0.
\<close>

definition PROVIDER_WEIGHTS :: "(string \<times> real) list" where
  "PROVIDER_WEIGHTS = [(''hmm'', 5), (''htv'', 1), (''hse'', 1)]"

definition provider_weight :: "string \<Rightarrow> real" where
  "provider_weight provider =
     (case map_of PROVIDER_WEIGHTS provider of
        None \<Rightarrow> 1
      | Some w \<Rightarrow> (if w = 0 then 1 else w))"

subsection \<open>Normalizing one value\<close>

text \<open>
  The normalizers return a number or \<^verbatim>\<open>null\<close>; \<^verbatim>\<open>null\<close> is \<open>None\<close>. Every number they
  return is finite, so the result type is \<open>real option\<close>.
\<close>

fun normalizeDirectRating :: "jsval \<Rightarrow> real option" where
  "normalizeDirectRating (JNumber (Fin r)) = Some (max 0 (min 10 r))"
| "normalizeDirectRating (JNumber PosInf) = Some 10"
| "normalizeDirectRating (JNumber NegInf) = Some 0"
| "normalizeDirectRating (JNumber NaN) = None"
| "normalizeDirectRating _ = None"

text \<open>
  \<^verbatim>\<open>Math.log10\<close> is the real logarithm to base 10; at \<^verbatim>\<open>Infinity\<close> it is \<^verbatim>\<open>Infinity\<close>, and
  the minimum with the cap is the cap.
\<close>

fun normalizeViewCount :: "jsval \<Rightarrow> real option" where
  "normalizeViewCount (JNumber (Fin views)) =
     (if views < 0 then None
      else if views < VIEW_THRESHOLD then None
      else Some (round1 (min VIEWS_maxValue (log 10 (views + 1) * VIEWS_multiplier))))"
| "normalizeViewCount (JNumber PosInf) = Some (round1 VIEWS_maxValue)"
| "normalizeViewCount (JNumber NegInf) = None"
| "normalizeViewCount (JNumber NaN) = None"
| "normalizeViewCount _ = None"

text \<open>\<^verbatim>\<open>typeof value !== 'number' || isNaN(value)\<close>.\<close>

fun not_a_number :: "jsval \<Rightarrow> bool" where
  "not_a_number (JNumber NaN) = True"
| "not_a_number (JNumber _) = False"
| "not_a_number _ = True"

text \<open>
  \<^verbatim>\<open>Math.min(7.5, x)\<close> where \<open>x\<close> is a number or \<^verbatim>\<open>null\<close>: \<^verbatim>\<open>null\<close> converts to 0.
\<close>

definition min_7_5 :: "real option \<Rightarrow> real" where
  "min_7_5 x = (case x of None \<Rightarrow> min (15 / 2) 0 | Some d \<Rightarrow> min (15 / 2) d)"

text \<open>
  \<^verbatim>\<open>normalizeRating(value, type = 'direct')\<close>: the type is \<open>None\<close> when the argument is
  omitted, and the default parameter makes it \<^verbatim>\<open>'direct'\<close>.
\<close>

definition normalizeRating :: "jsval \<Rightarrow> string option \<Rightarrow> real option" where
  "normalizeRating v ty =
     (let t = (case ty of None \<Rightarrow> ''direct'' | Some s \<Rightarrow> s) in
      if t = ''direct'' then normalizeDirectRating v
      else if t = ''views'' then normalizeViewCount v
      else if t = ''trending'' then
        (if not_a_number v then None else Some (min_7_5 (normalizeDirectRating v)))
      else if t = ''percentage'' then
        (if not_a_number v then None
         else (case v of
                 JNumber (Fin r) \<Rightarrow> Some (max 0 (min 10 (r / 10)))
               | JNumber PosInf \<Rightarrow> Some 10
               | _ \<Rightarrow> Some 0))
      else if t = ''stars'' then
        (if not_a_number v then None
         else (case v of
                 JNumber (Fin r) \<Rightarrow> Some (max 0 (min 10 (r / 5 * 10)))
               | JNumber PosInf \<Rightarrow> Some 10
               | _ \<Rightarrow> Some 0))
      else normalizeDirectRating v)"

subsection \<open>The rating breakdown and its weighted average\<close>

text \<open>
  A breakdown entry \<^verbatim>\<open>{ raw, normalized, type }\<close>. A missing or \<^verbatim>\<open>null\<close> \<^verbatim>\<open>normalized\<close> or
  \<^verbatim>\<open>type\<close> is \<open>None\<close>; a cached \<^verbatim>\<open>normalized\<close> is a finite number.
\<close>

record rating_entry =
  raw :: jsval
  normalized :: "real option"
  rtype :: "string option"

text \<open>
  A value of the breakdown object: \<^verbatim>\<open>null\<close> (or \<^verbatim>\<open>undefined\<close>), a bare number (the old
  format) or an entry object.
\<close>

datatype rbval = RNull | ROld jsnum | REntry rating_entry

text \<open>
  An object with string keys is an association list in insertion order, as
  \<^verbatim>\<open>Object.entries\<close> lists it; a write to a present key keeps the key's place, a write to
  a new key appends it (\<^const>\<open>AList.update\<close>). The keys are taken to be neither
  integer-like strings (which an object lists first) nor names that every object
  inherits, such as \<^verbatim>\<open>constructor\<close>.
\<close>

type_synonym breakdown = "(string \<times> rbval) list"

text \<open>\<^verbatim>\<open>data.type || 'direct'\<close>: a missing or empty type is \<^verbatim>\<open>'direct'\<close>.\<close>

definition type_or_direct :: "string option \<Rightarrow> string" where
  "type_or_direct ty = (case ty of None \<Rightarrow> ''direct'' | Some s \<Rightarrow> (if s = [] then ''direct'' else s))"

text \<open>
  The body of the loop of \<^verbatim>\<open>calculateWeightedAverage\<close> up to the weight: the normalized
  value the entry contributes, \<open>None\<close> where the loop \<^verbatim>\<open>continue\<close>s.
\<close>

fun resolve_entry :: "rbval \<Rightarrow> real option" where
  "resolve_entry RNull = None"
| "resolve_entry (ROld n) = None"
| "resolve_entry (REntry e) =
     (case normalized e of
        Some n \<Rightarrow> Some n
      | None \<Rightarrow>
          (if raw e = JNull \<or> raw e = JUndefined then None
           else if type_or_direct (rtype e) = ''views'' then normalizeViewCount (raw e)
           else if type_or_direct (rtype e) = ''trending'' then
             Some (min_7_5 (normalizeDirectRating (raw e)))
           else normalizeDirectRating (raw e)))"

text \<open>The loop: the pair \<^verbatim>\<open>(weightedSum, totalWeight)\<close> after the entries.\<close>

fun weighted_loop :: "breakdown \<Rightarrow> real \<times> real \<Rightarrow> real \<times> real" where
  "weighted_loop [] acc = acc"
| "weighted_loop ((provider, ratingInfo) # rest) (weightedSum, totalWeight) =
     (case resolve_entry ratingInfo of
        None \<Rightarrow> weighted_loop rest (weightedSum, totalWeight)
      | Some n \<Rightarrow>
          weighted_loop rest
            (weightedSum + n * provider_weight provider, totalWeight + provider_weight provider))"

text \<open>The argument is \<open>None\<close> when it is \<^verbatim>\<open>null\<close>, \<^verbatim>\<open>undefined\<close> or not an object.\<close>

definition calculateWeightedAverage :: "breakdown option \<Rightarrow> real" where
  "calculateWeightedAverage rb_arg =
     (case rb_arg of
        None \<Rightarrow> DEFAULT_RATING
      | Some rb \<Rightarrow>
          (case weighted_loop rb (0, 0) of
             (weightedSum, totalWeight) \<Rightarrow>
               if totalWeight = 0 then DEFAULT_RATING
               else round1 (weightedSum / totalWeight)))"

section \<open>Strings\<close>

definition toLowerChar :: "char \<Rightarrow> char" where
  "toLowerChar c =
     (let n = (of_char c :: nat) in if 65 \<le> n \<and> n \<le> 90 then char_of (n + 32) else c)"

definition toUpperChar :: "char \<Rightarrow> char" where
  "toUpperChar c =
     (let n = (of_char c :: nat) in if 97 \<le> n \<and> n \<le> 122 then char_of (n - 32) else c)"

definition toLowerCase :: "string \<Rightarrow> string" where
  "toLowerCase s = map toLowerChar s"

definition toUpperCase :: "string \<Rightarrow> string" where
  "toUpperCase s = map toUpperChar s"

text \<open>
  The classes \<^verbatim>\<open>\s\<close>, \<^verbatim>\<open>\w\<close>, \<^verbatim>\<open>\d\<close> and \<^verbatim>\<open>[a-z]\<close> on ASCII. The whitespace beyond
  ASCII that \<^verbatim>\<open>\s\<close> and \<^verbatim>\<open>trim\<close> also take (the no-break space and others) is outside
  the model.
\<close>

definition is_space :: "char \<Rightarrow> bool" where
  "is_space c = (let n = (of_char c :: nat) in (9 \<le> n \<and> n \<le> 13) \<or> n = 32)"

definition is_digit :: "char \<Rightarrow> bool" where
  "is_digit c = (let n = (of_char c :: nat) in 48 \<le> n \<and> n \<le> 57)"

definition is_lower :: "char \<Rightarrow> bool" where
  "is_lower c = (let n = (of_char c :: nat) in 97 \<le> n \<and> n \<le> 122)"

definition is_word :: "char \<Rightarrow> bool" where
  "is_word c =
     (let n = (of_char c :: nat) in
        (65 \<le> n \<and> n \<le> 90) \<or> (97 \<le> n \<and> n \<le> 122) \<or> (48 \<le> n \<and> n \<le> 57) \<or> n = 95)"

text \<open>\<^verbatim>\<open>s.trim()\<close>.\<close>

definition trim :: "string \<Rightarrow> string" where
  "trim s = rev (dropWhile is_space (rev (dropWhile is_space s)))"

text \<open>\<^verbatim>\<open>s.replace(/[^\w\s-]/g, '')\<close>.\<close>

definition strip_special :: "string \<Rightarrow> string" where
  "strip_special s = filter (\<lambda>c. is_word c \<or> is_space c \<or> c = CHR ''-'') s"

text \<open>
  \<^verbatim>\<open>s.replace(/\s+/g, ' ')\<close>: every maximal run of whitespace becomes one space. The flag
  says that the character before was whitespace of a run already replaced.
\<close>

fun collapse_spaces :: "bool \<Rightarrow> string \<Rightarrow> string" where
  "collapse_spaces in_run [] = []"
| "collapse_spaces in_run (c # cs) =
     (if is_space c then
        (if in_run then collapse_spaces True cs else CHR '' '' # collapse_spaces True cs)
      else c # collapse_spaces False cs)"

text \<open>A case-insensitive literal at the start of a string: the rest after it.\<close>

definition match_word :: "string \<Rightarrow> string \<Rightarrow> string option" where
  "match_word w s =
     (if toLowerCase (take (length w) s) = w then Some (drop (length w) s) else None)"

text \<open>
  \<^verbatim>\<open>s.replace(/^(the|a|an)\s+/i, '')\<close>: the alternatives are tried in order, each needing
  at least one whitespace character after it; the whole whitespace run goes.
\<close>

fun strip_article_from :: "string list \<Rightarrow> string \<Rightarrow> string" where
  "strip_article_from [] s = s"
| "strip_article_from (w # ws) s =
     (case match_word w s of
        None \<Rightarrow> strip_article_from ws s
      | Some r \<Rightarrow>
          (case r of
             [] \<Rightarrow> strip_article_from ws s
           | c # cs \<Rightarrow> if is_space c then dropWhile is_space r else strip_article_from ws s))"

definition strip_article :: "string \<Rightarrow> string" where
  "strip_article s = strip_article_from [''the'', ''a'', ''an''] s"

text \<open>
  Whether the whole of \<open>t\<close> matches \<^verbatim>\<open>\s+(episode|ep|series|season|s)\s*\d*$\<close>: a non-empty
  whitespace run, one of the words, then whitespace, then digits, then the end.
\<close>

definition marker_tail :: "string \<Rightarrow> bool" where
  "marker_tail u = (dropWhile is_digit (dropWhile is_space u) = [])"

definition matches_marker :: "string \<Rightarrow> bool" where
  "matches_marker t =
     (takeWhile is_space t \<noteq> [] \<and>
      list_ex
        (\<lambda>w. case match_word w (dropWhile is_space t) of
                None \<Rightarrow> False
              | Some u \<Rightarrow> marker_tail u)
        [''episode'', ''ep'', ''series'', ''season'', ''s''])"

text \<open>
  \<^verbatim>\<open>s.replace(/\s+(episode|ep|series|season|s)\s*\d*$/i, '')\<close>: the leftmost position from
  which the rest matches; the rest is removed.
\<close>

fun strip_marker :: "string \<Rightarrow> string" where
  "strip_marker [] = []"
| "strip_marker (c # cs) = (if matches_marker (c # cs) then [] else c # strip_marker cs)"

text \<open>\<^verbatim>\<open>s.replace(pat, '')\<close> with a string pattern: the first occurrence goes.\<close>

fun remove_first :: "string \<Rightarrow> string \<Rightarrow> string" where
  "remove_first pat [] = []"
| "remove_first pat (c # cs) =
     (if take (length pat) (c # cs) = pat then drop (length pat) (c # cs)
      else c # remove_first pat cs)"

text \<open>A string field that may be absent: \<^verbatim>\<open>undefined\<close> or \<^verbatim>\<open>null\<close> is \<open>None\<close>.\<close>

definition str_truthy :: "string option \<Rightarrow> bool" where
  "str_truthy s = (case s of None \<Rightarrow> False | Some t \<Rightarrow> t \<noteq> [])"

text \<open>\<^verbatim>\<open>s || ''\<close>.\<close>

definition str_or_empty :: "string option \<Rightarrow> string" where
  "str_or_empty s = (case s of None \<Rightarrow> [] | Some t \<Rightarrow> t)"

definition str_length :: "string option \<Rightarrow> nat" where
  "str_length s = (case s of None \<Rightarrow> 0 | Some t \<Rightarrow> length t)"

section \<open>The catalog aggregator\<close>

subsection \<open>Names and duplicates\<close>

definition normalizeName :: "string option \<Rightarrow> string" where
  "normalizeName nm =
     (case nm of
        None \<Rightarrow> []
      | Some n \<Rightarrow>
          if n = [] then []
          else strip_marker (strip_article (collapse_spaces False
                 (strip_special (trim (toLowerCase n))))))"

text \<open>
  One row of the matrix of \<^verbatim>\<open>levenshteinDistance\<close>: \<open>prev\<close> is the row above from column
  \<open>i - 1\<close> on, \<open>left\<close> the entry just written to the left.
\<close>

fun fill_row :: "char \<Rightarrow> string \<Rightarrow> nat list \<Rightarrow> nat \<Rightarrow> nat list" where
  "fill_row bj (ai # as) (diag # up # prev) left =
     (let v = min (min (left + 1) (up + 1)) (diag + (if ai = bj then 0 else 1))
      in v # fill_row bj as (up # prev) v)"
| "fill_row bj _ _ left = []"

text \<open>The rows \<open>j = 1, 2, ...\<close>, one for each character of \<open>b\<close>; the last row is returned.\<close>

fun matrix_rows :: "string \<Rightarrow> string \<Rightarrow> nat list \<Rightarrow> nat \<Rightarrow> nat list" where
  "matrix_rows a [] prev j = prev"
| "matrix_rows a (bj # bs) prev j = matrix_rows a bs (j # fill_row bj a prev j) (Suc j)"

definition levenshteinDistance :: "string \<Rightarrow> string \<Rightarrow> nat" where
  "levenshteinDistance a b = last (matrix_rows a b [0 ..< Suc (length a)] 1)"

definition similarity :: "string \<Rightarrow> string \<Rightarrow> real" where
  "similarity a b =
     (let longer = (if length a > length b then a else b);
          shorter = (if length a > length b then b else a)
      in if length longer = 0 then 1
         else (real (length longer) - real (levenshteinDistance longer shorter))
                / real (length longer))"

subsection \<open>Series records\<close>

text \<open>
  An optional field is \<open>None\<close> when it is \<^verbatim>\<open>undefined\<close> or \<^verbatim>\<open>null\<close>. The id is a string,
  \<^verbatim>\<open>rating\<close> and \<^verbatim>\<open>viewCount\<close> are numbers, \<^verbatim>\<open>genres\<close> and \<^verbatim>\<open>providers\<close> arrays of
  strings, \<^verbatim>\<open>year\<close> any value (only its truthiness is read).
\<close>

record series =
  series_id :: string
  name :: "string option"
  poster :: "string option"
  description :: "string option"
  studio :: "string option"
  genres :: "string list option"
  year :: jsval
  rating :: "jsnum option"
  ratingType :: "string option"
  viewCount :: "jsnum option"
  providers :: "string list option"
  providerSlugs :: "(string \<times> string) list option"
  ratingBreakdown :: "breakdown option"
  metadataScore :: "nat option"
  lastUpdated :: "string option"

definition isDuplicate :: "series \<Rightarrow> series \<Rightarrow> bool" where
  "isDuplicate series1 series2 =
     (let name1 = normalizeName (name series1);
          name2 = normalizeName (name series2)
      in if name1 = name2 then True
         else similarity name1 name2 \<ge> 9 / 10)"

subsection \<open>Ratings and metadata quality\<close>

text \<open>
  \<^verbatim>\<open>calculateAverageRating\<close> rebuilds the breakdown with a normalized value for every entry,
  dropping the entries whose value is \<^verbatim>\<open>null\<close>, and hands it to the weighted average.
\<close>

fun normalize_entry :: "rbval \<Rightarrow> rating_entry option" where
  "normalize_entry RNull = None"
| "normalize_entry (ROld n) =
     (case normalizeDirectRating (JNumber n) of
        None \<Rightarrow> None
      | Some d \<Rightarrow> Some \<lparr>raw = JNumber n, normalized = Some d, rtype = Some ''direct''\<rparr>)"
| "normalize_entry (REntry e) =
     (case (if type_or_direct (rtype e) = ''views'' then normalizeViewCount (raw e)
            else normalizeDirectRating (raw e)) of
        None \<Rightarrow> None
      | Some d \<Rightarrow>
          Some \<lparr>raw = raw e, normalized = Some d, rtype = Some (type_or_direct (rtype e))\<rparr>)"

fun normalizedBreakdown :: "breakdown \<Rightarrow> breakdown \<Rightarrow> breakdown" where
  "normalizedBreakdown [] acc = acc"
| "normalizedBreakdown ((provider, data) # rest) acc =
     (case normalize_entry data of
        None \<Rightarrow> normalizedBreakdown rest acc
      | Some e \<Rightarrow> normalizedBreakdown rest (AList.update provider (REntry e) acc))"

definition calculateAverageRating :: "breakdown option \<Rightarrow> real" where
  "calculateAverageRating rb_arg =
     (case rb_arg of
        None \<Rightarrow> DEFAULT_RATING
      | Some rb \<Rightarrow> calculateWeightedAverage (Some (normalizedBreakdown rb [])))"

text \<open>\<^verbatim>\<open>series.rating && series.rating > 0\<close>.\<close>

fun rating_positive :: "jsnum option \<Rightarrow> bool" where
  "rating_positive (Some (Fin r)) = (r > 0)"
| "rating_positive (Some PosInf) = True"
| "rating_positive _ = False"

definition calculateMetadataScore :: "series \<Rightarrow> nat" where
  "calculateMetadataScore s =
     (if str_truthy (description s) \<and> str_length (description s) > 20 then
        3 + (if str_length (description s) > 100 then 1 else 0)
          + (if str_length (description s) > 200 then 1 else 0)
      else 0)
     + (case genres s of None \<Rightarrow> 0 | Some gs \<Rightarrow> min (length gs) 5)
     + (if str_truthy (poster s) \<and> str_length (poster s) > 10 then 2 else 0)
     + (if truthy (year s) then 1 else 0)
     + (if rating_positive (rating s) then 1 else 0)"

subsection \<open>Merging two records\<close>

text \<open>\<^verbatim>\<open>id.match(/^([a-z]+)-/)\<close>: the lower-case letters before the first hyphen.\<close>

definition getPrefixFromId :: "string \<Rightarrow> string" where
  "getPrefixFromId i =
     (let p = takeWhile is_lower i in
      if p \<noteq> [] \<and> take 1 (dropWhile is_lower i) = ''-'' then p else ''unknown'')"

text \<open>\<^verbatim>\<open>id.replace(`${prefix}-`, '')\<close>.\<close>

definition slug_of :: "string \<Rightarrow> string \<Rightarrow> string" where
  "slug_of prefix i = remove_first (prefix @ ''-'') i"

text \<open>\<^verbatim>\<open>Object.assign(target, source)\<close>: the entries of the source, in order, written to the target.\<close>

definition assign :: "('k \<times> 'v) list \<Rightarrow> ('k \<times> 'v) list \<Rightarrow> ('k \<times> 'v) list" where
  "assign target source = fold (\<lambda>(k, v). AList.update k v) source target"

text \<open>\<^verbatim>\<open>if (!xs.includes(p)) xs.push(p)\<close>.\<close>

definition push_new :: "'a \<Rightarrow> 'a list \<Rightarrow> 'a list" where
  "push_new p xs = (if p \<in> set xs then xs else xs @ [p])"

text \<open>\<^verbatim>\<open>[...new Set(xs)]\<close>: the first occurrence of every element, in order.\<close>

fun dedupe :: "'a list \<Rightarrow> 'a list" where
  "dedupe [] = []"
| "dedupe (x # xs) = x # dedupe (removeAll x xs)"

text \<open>\<^verbatim>\<open>!breakdown[prefix]\<close>: whether the breakdown has a truthy value at the prefix.\<close>

fun rb_truthy :: "rbval option \<Rightarrow> bool" where
  "rb_truthy None = False"
| "rb_truthy (Some RNull) = False"
| "rb_truthy (Some (ROld n)) = truthy (JNumber n)"
| "rb_truthy (Some (REntry e)) = True"

text \<open>The entries \<^verbatim>\<open>{ raw: rating, type: ratingType || 'direct' }\<close> and \<^verbatim>\<open>{ raw: viewCount, type: 'views' }\<close>.\<close>

definition rating_entry_of :: "jsnum \<Rightarrow> string option \<Rightarrow> rbval" where
  "rating_entry_of r ty =
     REntry \<lparr>raw = JNumber r, normalized = None, rtype = Some (type_or_direct ty)\<rparr>"

definition views_entry_of :: "jsnum \<Rightarrow> rbval" where
  "views_entry_of n = REntry \<lparr>raw = JNumber n, normalized = None, rtype = Some ''views''\<rparr>"

text \<open>
  \<^verbatim>\<open>getMostRecentDate\<close>. \<^verbatim>\<open>new Date(s).getTime()\<close> belongs to the runtime and is the
  parameter \<open>getTime\<close>; \<open>None\<close> is its \<^verbatim>\<open>NaN\<close>.
\<close>

definition getMostRecentDate ::
  "(string \<Rightarrow> int option) \<Rightarrow> string option \<Rightarrow> string option \<Rightarrow> string option" where
  "getMostRecentDate getTime dateA dateB =
     (if \<not> str_truthy dateA \<and> \<not> str_truthy dateB then None
      else if \<not> str_truthy dateA then dateB
      else if \<not> str_truthy dateB then dateA
      else (case getTime (str_or_empty dateA) of
              None \<Rightarrow> dateB
            | Some timeA \<Rightarrow>
                (case getTime (str_or_empty dateB) of
                   None \<Rightarrow> dateA
                 | Some timeB \<Rightarrow> if timeA > timeB then dateA else dateB)))"

text \<open>
  \<^verbatim>\<open>mergeSeries(existing, newSeries)\<close> writes to its arguments, so the model returns the
  three objects after the call: the record returned (the primary), \<^verbatim>\<open>existing\<close> and
  \<^verbatim>\<open>newSeries\<close>. Without a swap the primary is the object \<^verbatim>\<open>existing\<close> itself. With a swap
  the primary is the shallow copy \<^verbatim>\<open>{ ...newSeries }\<close>: its \<^verbatim>\<open>providers\<close>, \<^verbatim>\<open>providerSlugs\<close>
  and \<^verbatim>\<open>ratingBreakdown\<close> are the containers of \<^verbatim>\<open>newSeries\<close> where \<^verbatim>\<open>newSeries\<close> has them,
  and what is pushed or assigned into them shows in \<^verbatim>\<open>newSeries\<close> too. The two arguments
  are taken to be different objects that share no array and no object.
\<close>

definition merge_genres ::
  "string list option \<Rightarrow> string list option \<Rightarrow> string option \<Rightarrow> string option
     \<Rightarrow> string list option" where
  "merge_genres primary_genres secondary_genres primary_studio secondary_studio =
     (case secondary_genres of
        None \<Rightarrow> primary_genres
      | Some sg \<Rightarrow>
          (let pg = (case primary_genres of None \<Rightarrow> [] | Some g \<Rightarrow> g);
               allGenres = pg @ sg;
               studioName = (if str_truthy primary_studio then primary_studio else secondary_studio);
               filteredGenres =
                 (if str_truthy studioName then
                    filter (\<lambda>g. toLowerCase g \<noteq> toLowerCase (str_or_empty studioName)) allGenres
                  else allGenres)
           in Some (dedupe filteredGenres)))"

definition merge_studio :: "string option \<Rightarrow> string option \<Rightarrow> string option" where
  "merge_studio primary_studio secondary_studio =
     (if \<not> str_truthy primary_studio \<and> str_truthy secondary_studio then secondary_studio
      else if str_truthy primary_studio \<and> str_truthy secondary_studio then
        (let primaryAllCaps = (str_or_empty primary_studio = toUpperCase (str_or_empty primary_studio));
             secondaryAllCaps =
               (str_or_empty secondary_studio = toUpperCase (str_or_empty secondary_studio))
         in if primaryAllCaps \<and> \<not> secondaryAllCaps then secondary_studio else primary_studio)
      else primary_studio)"

definition merge_description :: "string option \<Rightarrow> string option \<Rightarrow> string option" where
  "merge_description primary_description secondary_description =
     (if \<not> str_truthy primary_description then secondary_description
      else if str_truthy secondary_description
              \<and> str_length secondary_description > str_length primary_description
      then secondary_description
      else primary_description)"

text \<open>The breakdown of the secondary after lines 248 to 262: its own entry is written.\<close>

definition secondary_breakdown :: "series \<Rightarrow> breakdown option" where
  "secondary_breakdown secondary =
     (let secondaryPrefix = getPrefixFromId (series_id secondary);
          rb1 = (case rating secondary of
                   None \<Rightarrow> ratingBreakdown secondary
                 | Some r \<Rightarrow>
                     Some (AList.update secondaryPrefix (rating_entry_of r (ratingType secondary))
                       (case ratingBreakdown secondary of None \<Rightarrow> [] | Some m \<Rightarrow> m)));
          rb2 = (case viewCount secondary of
                   None \<Rightarrow> rb1
                 | Some n \<Rightarrow>
                     Some (AList.update secondaryPrefix (views_entry_of n)
                       (case rb1 of None \<Rightarrow> [] | Some m \<Rightarrow> m)))
      in rb2)"

definition mergeSeries ::
  "(string \<Rightarrow> int option) \<Rightarrow> series \<Rightarrow> series \<Rightarrow> series \<times> series \<times> series" where
  "mergeSeries getTime existing newSeries =
     (let existingScore = calculateMetadataScore existing;
          newScore = calculateMetadataScore newSeries;
          swap = (newScore > existingScore);
          primary = (if swap then newSeries else existing);
          secondary = (if swap then existing else newSeries);
          primaryPrefix = getPrefixFromId (series_id primary);
          secondaryPrefix = getPrefixFromId (series_id secondary);
          providers1 = (case providers primary of None \<Rightarrow> [primaryPrefix] | Some ps \<Rightarrow> ps);
          slugs1 = (case providerSlugs primary of
                      None \<Rightarrow> [(primaryPrefix, slug_of primaryPrefix (series_id primary))]
                    | Some m \<Rightarrow> m);
          rb1 = (case ratingBreakdown primary of None \<Rightarrow> [] | Some m \<Rightarrow> m);
          existing_providers = (if swap then providers existing else Some providers1);
          existing_slugs = (if swap then providerSlugs existing else Some slugs1);
          existing_rb = (if swap then ratingBreakdown existing else Some rb1);
          providers2 = (case existing_providers of
                          None \<Rightarrow> providers1
                        | Some eps \<Rightarrow> fold push_new eps providers1);
          slugs2 = (case existing_slugs of None \<Rightarrow> slugs1 | Some m \<Rightarrow> assign slugs1 m);
          rb2 = (case existing_rb of None \<Rightarrow> rb1 | Some m \<Rightarrow> assign rb1 m);
          rb3 = (case rating primary of
                   None \<Rightarrow> rb2
                 | Some r \<Rightarrow>
                     if rb_truthy (map_of rb2 primaryPrefix) then rb2
                     else AList.update primaryPrefix (rating_entry_of r (ratingType primary)) rb2);
          rb4 = (case viewCount primary of
                   None \<Rightarrow> rb3
                 | Some n \<Rightarrow>
                     if rb_truthy (map_of rb3 primaryPrefix) then rb3
                     else AList.update primaryPrefix (views_entry_of n) rb3);
          secondary_rb = secondary_breakdown secondary;
          rb5 = (case secondary_rb of None \<Rightarrow> rb4 | Some m \<Rightarrow> assign rb4 m);
          providers3 = push_new secondaryPrefix providers2;
          slugs3 = AList.update secondaryPrefix (slug_of secondaryPrefix (series_id secondary)) slugs2;
          merged = primary
            \<lparr>providers := Some providers3,
             providerSlugs := Some slugs3,
             ratingBreakdown := Some rb5,
             rating := Some (Fin (calculateAverageRating (Some rb5))),
             poster := (if \<not> str_truthy (poster primary) \<and> str_truthy (poster secondary)
                        then poster secondary else poster primary),
             description := merge_description (description primary) (description secondary),
             genres := merge_genres (genres primary) (genres secondary)
                         (studio primary) (studio secondary),
             studio := merge_studio (studio primary) (studio secondary),
             lastUpdated := getMostRecentDate getTime (lastUpdated primary) (lastUpdated secondary)\<rparr>;
          result = merged\<lparr>metadataScore := Some (calculateMetadataScore merged)\<rparr>;
          secondary_after = secondary\<lparr>ratingBreakdown := secondary_rb\<rparr>;
          new_after = newSeries
            \<lparr>providers := (case providers newSeries of None \<Rightarrow> None | Some ps \<Rightarrow> Some providers3),
             providerSlugs := (case providerSlugs newSeries of None \<Rightarrow> None | Some m \<Rightarrow> Some slugs3),
             ratingBreakdown := (case ratingBreakdown newSeries of None \<Rightarrow> None | Some m \<Rightarrow> Some rb5)\<rparr>
      in if swap then (result, secondary_after, new_after)
         else (result, result, secondary_after))"

text \<open>The value \<^verbatim>\<open>mergeSeries\<close> returns.\<close>

definition merged_of :: "(string \<Rightarrow> int option) \<Rightarrow> series \<Rightarrow> series \<Rightarrow> series" where
  "merged_of getTime existing newSeries = fst (mergeSeries getTime existing newSeries)"

subsection \<open>Aggregating the catalogs\<close>

text \<open>\<^verbatim>\<open>aggregated.findIndex(s => isDuplicate(s, series))\<close>, \<open>None\<close> for \<open>-1\<close>.\<close>

fun findIndex :: "('a \<Rightarrow> bool) \<Rightarrow> 'a list \<Rightarrow> nat option" where
  "findIndex P [] = None"
| "findIndex P (x # xs) =
     (if P x then Some 0 else (case findIndex P xs of None \<Rightarrow> None | Some i \<Rightarrow> Some (Suc i)))"

text \<open>The record a series is added as when no accumulated record is its duplicate.\<close>

definition seed :: "series \<Rightarrow> series" where
  "seed s =
     (let prefix = getPrefixFromId (series_id s);
          rb = (case rating s of
                  Some r \<Rightarrow> [(prefix, rating_entry_of r (ratingType s))]
                | None \<Rightarrow>
                    (case viewCount s of
                       Some n \<Rightarrow> [(prefix, views_entry_of n)]
                     | None \<Rightarrow> []));
          filteredGenres =
            (case genres s of
               None \<Rightarrow> None
             | Some gs \<Rightarrow>
                 if str_truthy (studio s) then
                   Some (filter (\<lambda>g. toLowerCase g \<noteq> toLowerCase (str_or_empty (studio s))) gs)
                 else Some gs);
          newSeries = s
            \<lparr>genres := filteredGenres,
             providers := Some [prefix],
             providerSlugs := Some [(prefix, slug_of prefix (series_id s))],
             ratingBreakdown := Some rb,
             metadataScore := Some (calculateMetadataScore s)\<rparr>
      in newSeries\<lparr>rating := Some (Fin (calculateAverageRating (ratingBreakdown newSeries)))\<rparr>)"

text \<open>One turn of the inner loop, and the two loops over the catalogs.\<close>

definition aggregate_step :: "(string \<Rightarrow> int option) \<Rightarrow> series list \<Rightarrow> series \<Rightarrow> series list" where
  "aggregate_step getTime aggregated s =
     (case findIndex (\<lambda>x. isDuplicate x s) aggregated of
        Some existingIndex \<Rightarrow>
          aggregated[existingIndex := merged_of getTime (aggregated ! existingIndex) s]
      | None \<Rightarrow> aggregated @ [seed s])"

definition accumulate :: "(string \<Rightarrow> int option) \<Rightarrow> (string \<times> series list) list \<Rightarrow> series list" where
  "accumulate getTime providerCatalogs =
     fold (\<lambda>(provider, catalog) aggregated. fold (\<lambda>s acc. aggregate_step getTime acc s) catalog aggregated)
       providerCatalogs []"

text \<open>
  The comparator of the final sort. \<^verbatim>\<open>localeCompare\<close> belongs to the runtime and is the
  parameter \<open>localeCompare\<close>.
\<close>

definition provider_count :: "series \<Rightarrow> nat" where
  "provider_count s =
     (case providers s of None \<Rightarrow> 1 | Some ps \<Rightarrow> if length ps = 0 then 1 else length ps)"

definition score_or_0 :: "series \<Rightarrow> nat" where
  "score_or_0 s = (case metadataScore s of None \<Rightarrow> 0 | Some n \<Rightarrow> n)"

definition compare_series :: "(string \<Rightarrow> string \<Rightarrow> int) \<Rightarrow> series \<Rightarrow> series \<Rightarrow> int" where
  "compare_series localeCompare a b =
     (let scoreDiff = int (score_or_0 b) - int (score_or_0 a) in
      if scoreDiff \<noteq> 0 then scoreDiff
      else (let providerDiff = int (provider_count b) - int (provider_count a) in
            if providerDiff \<noteq> 0 then providerDiff
            else localeCompare (str_or_empty (name a)) (str_or_empty (name b))))"

text \<open>
  \<^verbatim>\<open>Array.prototype.sort(compare)\<close> belongs to the runtime; the language makes it a stable
  sort, and it is modelled by the stable insertion sort: \<open>a\<close> goes before \<open>b\<close> when
  \<^verbatim>\<open>compare(a, b) < 0\<close>, and two elements that compare as 0 keep their order.
\<close>

fun insert_sorted :: "('a \<Rightarrow> 'a \<Rightarrow> int) \<Rightarrow> 'a \<Rightarrow> 'a list \<Rightarrow> 'a list" where
  "insert_sorted cmp x [] = [x]"
| "insert_sorted cmp x (y # ys) =
     (if cmp x y \<le> 0 then x # y # ys else y # insert_sorted cmp x ys)"

definition js_sort :: "('a \<Rightarrow> 'a \<Rightarrow> int) \<Rightarrow> 'a list \<Rightarrow> 'a list" where
  "js_sort cmp xs = foldr (insert_sorted cmp) xs []"

definition aggregateCatalogs ::
  "(string \<Rightarrow> int option) \<Rightarrow> (string \<Rightarrow> string \<Rightarrow> int) \<Rightarrow> (string \<times> series list) list
     \<Rightarrow> series list" where
  "aggregateCatalogs getTime localeCompare providerCatalogs =
     js_sort (compare_series localeCompare) (accumulate getTime providerCatalogs)"

section \<open>Notions and example records the properties are stated with\<close>

text \<open>A JavaScript object holds each key once.\<close>

definition wf_object :: "('k \<times> 'v) list option \<Rightarrow> bool" where
  "wf_object obj = (case obj of None \<Rightarrow> True | Some m \<Rightarrow> distinct (map fst m))"

text \<open>\<^verbatim>\<open>obj?.[k]\<close>: the value at a key of an object that may be absent.\<close>

definition lookup :: "('k \<times> 'v) list option \<Rightarrow> 'k \<Rightarrow> 'v option" where
  "lookup obj k = (case obj of None \<Rightarrow> None | Some m \<Rightarrow> map_of m k)"

text \<open>The primary and the secondary of a merge, as lines 199 to 209 choose them.\<close>

definition primary_of :: "series \<Rightarrow> series \<Rightarrow> series" where
  "primary_of existing newSeries =
     (if calculateMetadataScore newSeries > calculateMetadataScore existing then newSeries
      else existing)"

definition secondary_of :: "series \<Rightarrow> series \<Rightarrow> series" where
  "secondary_of existing newSeries =
     (if calculateMetadataScore newSeries > calculateMetadataScore existing then existing
      else newSeries)"

text \<open>
  What the specification means by a value rounded to one decimal: a multiple of a tenth
  that is at most half a tenth away.
\<close>

definition rounded_to_1_decimal :: "real \<Rightarrow> real \<Rightarrow> bool" where
  "rounded_to_1_decimal y r = ((\<exists>k::int. r = real_of_int k / 10) \<and> \<bar>r - y\<bar> \<le> 1 / 20)"

subsection \<open>Example records\<close>

text \<open>A record with an empty id and no other field, and a runtime without dates.\<close>

definition blank_series :: series where
  "blank_series =
     \<lparr>series_id = [], name = None, poster = None, description = None, studio = None,
      genres = None, year = JUndefined, rating = None, ratingType = None, viewCount = None,
      providers = None, providerSlugs = None, ratingBreakdown = None, metadataScore = None,
      lastUpdated = None\<rparr>"

definition no_dates :: "string \<Rightarrow> int option" where
  "no_dates s = None"



text \<open>The object \<^verbatim>\<open>newSeries\<close> after a call of \<^verbatim>\<open>mergeSeries\<close>.\<close>

definition newSeries_after :: "(string \<Rightarrow> int option) \<Rightarrow> series \<Rightarrow> series \<Rightarrow> series" where
  "newSeries_after getTime existing newSeries = snd (snd (mergeSeries getTime existing newSeries))"

text \<open>
  \<^verbatim>\<open>merge(merge(a, b), b)\<close>: the second call gets the record the first call returned and
  the object \<open>b\<close> as the first call left it.
\<close>

definition remerge :: "(string \<Rightarrow> int option) \<Rightarrow> series \<Rightarrow> series \<Rightarrow> series" where
  "remerge getTime a b =
     merged_of getTime (merged_of getTime a b) (newSeries_after getTime a b)"

text \<open>The \<^verbatim>\<open>providerSlugs\<close> of the primary after line 216.\<close>

definition own_slugs :: "series \<Rightarrow> (string \<times> string) list" where
  "own_slugs s =
     (case providerSlugs s of
        None \<Rightarrow> [(getPrefixFromId (series_id s), slug_of (getPrefixFromId (series_id s)) (series_id s))]
      | Some m \<Rightarrow> m)"

text \<open>An existing record and an incoming one with a rating each; the scores tie.\<close>

definition c3_existing :: series where
  "c3_existing = blank_series\<lparr>series_id := ''hmm-x'', rating := Some (Fin 8)\<rparr>"

definition c3_incoming :: series where
  "c3_incoming = blank_series\<lparr>series_id := ''htv-x'', rating := Some (Fin 5)\<rparr>"

text \<open>An existing record that has a slug for \<^verbatim>\<open>htv\<close> already, and an incoming \<^verbatim>\<open>htv\<close> record.\<close>

definition c4_existing :: series where
  "c4_existing = blank_series
     \<lparr>series_id := ''hmm-x'', providerSlugs := Some [(''hmm'', ''x''), (''htv'', ''old'')]\<rparr>"

definition c4_incoming :: series where
  "c4_incoming = blank_series\<lparr>series_id := ''htv-new''\<rparr>"

text \<open>The same incoming record with a rating, which makes it the primary.\<close>

definition c4_rated :: series where
  "c4_rated = blank_series\<lparr>series_id := ''htv-new'', rating := Some (Fin 5)\<rparr>"

text \<open>
  Two records of one title: the first lists its studio among its genres, the second has a
  year and an empty genre list.
\<close>

definition c5_a :: series where
  "c5_a = blank_series
     \<lparr>series_id := ''hmm-x'', name := Some ''X'', rating := Some (Fin 8),
      genres := Some [''Acme''], studio := Some ''Acme''\<rparr>"

definition c5_b :: series where
  "c5_b = blank_series
     \<lparr>series_id := ''htv-x'', name := Some ''X'', rating := Some (Fin 2),
      genres := Some [], year := JNumber (Fin 2020)\<rparr>"




text \<open>
  What the final sort needs of \<^verbatim>\<open>localeCompare\<close>: it is a consistent comparator, that is,
  swapping the arguments flips the sign and "not after" is transitive.
\<close>

definition consistent_comparator :: "('a \<Rightarrow> 'a \<Rightarrow> int) \<Rightarrow> bool" where
  "consistent_comparator cmp =
     ((\<forall>a b. sgn (cmp a b) = - sgn (cmp b a)) \<and>
      (\<forall>a b c. cmp a b \<le> 0 \<and> cmp b c \<le> 0 \<longrightarrow> cmp a c \<le> 0))"

text \<open>
  The order the specification gives for the result: the metadata score descending, then
  the provider count descending, then the name ascending.
\<close>

definition ranks_before :: "(string \<Rightarrow> string \<Rightarrow> int) \<Rightarrow> series \<Rightarrow> series \<Rightarrow> bool" where
  "ranks_before localeCompare a b =
     (score_or_0 a > score_or_0 b \<or>
      (score_or_0 a = score_or_0 b \<and>
       (provider_count a > provider_count b \<or>
        (provider_count a = provider_count b \<and>
         localeCompare (str_or_empty (name a)) (str_or_empty (name b)) \<le> 0))))"

text \<open>A comparator to run the examples with: the order of the character codes.\<close>

definition ascii_compare :: "string \<Rightarrow> string \<Rightarrow> int" where
  "ascii_compare a b = (if a = b then 0 else if a < b then - 1 else 1)"

text \<open>
  Two providers: the first and the third record are one title, the second is another and
  has a year, so that both results score 1.
\<close>

definition c8_catalogs :: "(string \<times> series list) list" where
  "c8_catalogs =
     [(''hmm'', [blank_series\<lparr>series_id := ''hmm-foo'', name := Some ''Foo The Animation''\<rparr>,
                 blank_series\<lparr>series_id := ''hmm-bar'', name := Some ''Bar'',
                                year := JNumber (Fin 2020)\<rparr>]),
      (''hse'', [blank_series\<lparr>series_id := ''hse-foo-anime'', name := Some ''foo the animation''\<rparr>])]"

section \<open>Properties\<close>

lemmas string_defs = toLowerChar_def toUpperChar_def toLowerCase_def toUpperCase_def
  is_space_def is_digit_def is_lower_def is_word_def str_truthy_def str_length_def str_or_empty_def

lemmas rating_defs = calculateAverageRating_def calculateWeightedAverage_def type_or_direct_def
  provider_weight_def PROVIDER_WEIGHTS_def round1_def js_round_def DEFAULT_RATING_def
  rating_entry_of_def views_entry_of_def

lemmas merge_defs = mergeSeries_def merged_of_def calculateMetadataScore_def getPrefixFromId_def
  slug_of_def assign_def push_new_def merge_genres_def merge_studio_def merge_description_def
  secondary_breakdown_def getMostRecentDate_def primary_of_def secondary_of_def lookup_def
  wf_object_def blank_series_def no_dates_def

subsection \<open>Rounding and the view-count rule\<close>

lemma round1_rounded: "rounded_to_1_decimal y (round1 y)"
proof -
  define k where "k = \<lfloor>y * 10 + 1 / 2\<rfloor>"
  have a: "real_of_int k \<le> y * 10 + 1 / 2" unfolding k_def by (rule of_int_floor_le)
  have b: "y * 10 + 1 / 2 < real_of_int k + 1" unfolding k_def by linarith
  have "\<bar>real_of_int k / 10 - y\<bar> \<le> 1 / 20" using a b by linarith
  then show ?thesis unfolding rounded_to_1_decimal_def round1_def js_round_def k_def by blast
qed

lemma round1_mono: "x \<le> y \<Longrightarrow> round1 x \<le> round1 y"
  unfolding round1_def js_round_def by (simp add: divide_right_mono floor_mono)

lemma round1_7: "round1 7 = 7"
  by (simp add: round1_def js_round_def)

lemma round1_le_7: "x \<le> 7 \<Longrightarrow> round1 x \<le> 7"
  using round1_mono [of x 7] by (simp add: round1_7)

text \<open>
  C7. \<^verbatim>\<open>normalizeViewCount(v)\<close> is \<^verbatim>\<open>null\<close> when \<open>v\<close> is not a number, is \<^verbatim>\<open>NaN\<close>, is negative
  or is below the threshold 1000; otherwise it is the minimum of 7 and
  \<open>log10 (v + 1) * 1.5\<close>, rounded to one decimal. So it is \<^verbatim>\<open>null\<close> at 999, a number at
  1000, and never more than 7.
\<close>

theorem normalizeViewCount_spec:
  "(not_a_number v \<longrightarrow> normalizeViewCount v = None) \<and>
   (\<forall>x. v = JNumber (Fin x) \<and> x < 1000 \<longrightarrow> normalizeViewCount v = None) \<and>
   (v = JNumber NegInf \<longrightarrow> normalizeViewCount v = None) \<and>
   (\<forall>x. v = JNumber (Fin x) \<and> 1000 \<le> x \<longrightarrow>
        normalizeViewCount v = Some (round1 (min 7 (log 10 (x + 1) * (3 / 2)))) \<and>
        rounded_to_1_decimal (min 7 (log 10 (x + 1) * (3 / 2))) (the (normalizeViewCount v))) \<and>
   (v = JNumber PosInf \<longrightarrow> normalizeViewCount v = Some 7) \<and>
   (\<forall>r. normalizeViewCount v = Some r \<longrightarrow> r \<le> 7) \<and>
   normalizeViewCount (JNumber (Fin 999)) = None \<and>
   (\<exists>r. normalizeViewCount (JNumber (Fin 1000)) = Some r \<and> r \<le> 7)"
proof -
  have c1: "not_a_number v \<longrightarrow> normalizeViewCount v = None"
    by (cases v rule: not_a_number.cases) simp_all
  have c2: "\<forall>x. v = JNumber (Fin x) \<and> x < 1000 \<longrightarrow> normalizeViewCount v = None"
    by (simp add: VIEW_THRESHOLD_def)
  have c3: "v = JNumber NegInf \<longrightarrow> normalizeViewCount v = None"
    by simp
  have c4: "\<forall>x. v = JNumber (Fin x) \<and> 1000 \<le> x \<longrightarrow>
        normalizeViewCount v = Some (round1 (min 7 (log 10 (x + 1) * (3 / 2)))) \<and>
        rounded_to_1_decimal (min 7 (log 10 (x + 1) * (3 / 2))) (the (normalizeViewCount v))"
    by (simp add: VIEW_THRESHOLD_def VIEWS_maxValue_def VIEWS_multiplier_def round1_rounded)
  have c5: "v = JNumber PosInf \<longrightarrow> normalizeViewCount v = Some 7"
    by (simp add: VIEWS_maxValue_def round1_7)
  have c6: "\<forall>r. normalizeViewCount v = Some r \<longrightarrow> r \<le> 7"
    by (cases v rule: normalizeViewCount.cases)
       (auto simp: VIEWS_maxValue_def round1_7 intro!: round1_le_7 split: if_splits)
  have c7: "normalizeViewCount (JNumber (Fin 999)) = None"
    by (simp add: VIEW_THRESHOLD_def)
  have c8: "\<exists>r. normalizeViewCount (JNumber (Fin 1000)) = Some r \<and> r \<le> 7"
    by (auto simp: VIEW_THRESHOLD_def VIEWS_maxValue_def intro!: round1_le_7)
  show ?thesis using c1 c2 c3 c4 c5 c6 c7 c8 by blast
qed

text \<open>
  A string, \<^verbatim>\<open>NaN\<close>, a negative number and 500 views give \<^verbatim>\<open>null\<close>; at 999999 views the
  logarithm is 6 and the cap 7 applies.
\<close>

theorem normalizeViewCount_spec_witness:
  "normalizeViewCount (JStr ''5000'') = None \<and>
   normalizeViewCount (JNumber NaN) = None \<and>
   normalizeViewCount (JNumber (Fin (- 1))) = None \<and>
   normalizeViewCount (JNumber (Fin 500)) = None \<and>
   normalizeViewCount (JNumber (Fin 999999))
     = Some (round1 (min 7 (log 10 (999999 + 1) * (3 / 2)))) \<and>
   normalizeViewCount (JNumber (Fin 999999)) = Some 7"
proof -
  have "log 10 1000000 = (6::real)"
    using log_nat_power [of 10 10 6] by simp
  then have "normalizeViewCount (JNumber (Fin 999999)) = Some 7"
    by (simp add: VIEW_THRESHOLD_def VIEWS_maxValue_def VIEWS_multiplier_def round1_7)
  then show ?thesis
    using normalizeViewCount_spec [of "JNumber (Fin 500)"]
      normalizeViewCount_spec [of "JNumber (Fin 999999)"]
      normalizeViewCount_spec [of "JStr ''5000''"]
      normalizeViewCount_spec [of "JNumber NaN"]
      normalizeViewCount_spec [of "JNumber (Fin (- 1))"]
    by simp
qed

subsection \<open>Objects as association lists\<close>

lemma map_of_assign:
  assumes "distinct (map fst s)"
  shows "map_of (assign t s) = map_of t ++ map_of s"
proof -
  have "distinct (map fst s) \<Longrightarrow> map_of (fold (\<lambda>(k, v). AList.update k v) s t) = map_of t ++ map_of s" for t
  proof (induction s arbitrary: t)
    case Nil
    then show ?case by simp
  next
    case (Cons kv s)
    obtain k v where kv: "kv = (k, v)" by (cases kv)
    from Cons.prems kv have fresh: "map_of s k = None" and d: "distinct (map fst s)"
      by (auto simp: map_of_eq_None_iff)
    have "map_of (fold (\<lambda>(k, v). AList.update k v) (kv # s) t)
            = map_of (fold (\<lambda>(k, v). AList.update k v) s (AList.update k v t))"
      by (simp add: kv)
    also have "\<dots> = map_of (AList.update k v t) ++ map_of s" by (rule Cons.IH [OF d])
    also have "\<dots> = map_of t ++ map_of (kv # s)"
      unfolding kv using fresh
      by (intro ext) (auto simp: update_conv' map_add_def split: option.splits)
    finally show ?case .
  qed
  with assms show ?thesis by (simp add: assign_def)
qed

lemma map_of_assign_Some:
  "distinct (map fst s) \<Longrightarrow> map_of s k = Some v \<Longrightarrow> map_of (assign t s) k = Some v"
  by (simp add: map_of_assign)


subsection \<open>The merged rating breakdown\<close>




lemma map_of_assign_self: "distinct (map fst m) \<Longrightarrow> map_of (assign m m) = map_of m"
  by (rule ext) (simp add: map_of_assign map_add_def split: option.splits)




subsection \<open>The rating rules\<close>

lemma not_a_number_direct: "not_a_number v \<Longrightarrow> normalizeDirectRating v = None"
  by (cases v rule: not_a_number.cases) simp_all

lemma number_direct: "\<not> not_a_number v \<Longrightarrow> normalizeDirectRating v \<noteq> None"
  by (cases v rule: not_a_number.cases) (auto elim: normalizeDirectRating.elims)

text \<open>
  C10. With a type outside \<^verbatim>\<open>'direct'\<close>, \<^verbatim>\<open>'views'\<close>, \<^verbatim>\<open>'percentage'\<close>, \<^verbatim>\<open>'stars'\<close> and
  \<^verbatim>\<open>'trending'\<close>, and with the type omitted, \<^verbatim>\<open>normalizeRating\<close> is the direct rule: a number
  is clamped to the range from 0 to 10, anything that is not a number, and \<^verbatim>\<open>NaN\<close>, gives
  \<^verbatim>\<open>null\<close>, and a number never gives \<^verbatim>\<open>null\<close>.
\<close>

theorem normalizeRating_unknown_type:
  assumes "t \<notin> {''direct'', ''views'', ''percentage'', ''stars'', ''trending''}"
  shows "normalizeRating v (Some t) = normalizeDirectRating v \<and>
         normalizeRating v None = normalizeDirectRating v \<and>
         (\<forall>x. v = JNumber (Fin x) \<longrightarrow> normalizeRating v (Some t) = Some (max 0 (min 10 x))) \<and>
         (v = JNumber PosInf \<longrightarrow> normalizeRating v (Some t) = Some 10) \<and>
         (v = JNumber NegInf \<longrightarrow> normalizeRating v (Some t) = Some 0) \<and>
         (not_a_number v \<longrightarrow> normalizeRating v (Some t) = None) \<and>
         (\<not> not_a_number v \<longrightarrow> normalizeRating v (Some t) \<noteq> None)"
proof -
  from assms have fallback: "normalizeRating v (Some t) = normalizeDirectRating v"
    by (simp add: normalizeRating_def)
  have omitted: "normalizeRating v None = normalizeDirectRating v"
    by (simp add: normalizeRating_def)
  show ?thesis
    unfolding fallback omitted
    using not_a_number_direct [of v] number_direct [of v] by auto
qed

text \<open>The type \<^verbatim>\<open>'score'\<close> with the values 11 and \<^verbatim>\<open>'n/a'\<close>.\<close>

theorem normalizeRating_unknown_type_witness:
  "''score'' \<notin> {''direct'', ''views'', ''percentage'', ''stars'', ''trending''} \<and>
   normalizeRating (JNumber (Fin 11)) (Some ''score'') = Some 10 \<and>
   normalizeRating (JNumber (Fin 11)) None = Some 10 \<and>
   normalizeRating (JStr ''n/a'') (Some ''score'') = None"
proof -
  have t: "''score'' \<notin> {''direct'', ''views'', ''percentage'', ''stars'', ''trending''}"
    by simp
  show ?thesis
    using normalizeRating_unknown_type [OF t, of "JNumber (Fin 11)"]
      normalizeRating_unknown_type [OF t, of "JStr ''n/a''"]
    by simp
qed

subsection \<open>The weighted average\<close>

lemma provider_weight_pos: "provider_weight p > 0"
  by (simp add: provider_weight_def PROVIDER_WEIGHTS_def)

lemma weighted_loop_weight_ge: "snd (weighted_loop rb (s, w)) \<ge> w"
proof (induction rb arbitrary: s w)
  case Nil
  then show ?case by simp
next
  case (Cons pe rb)
  obtain p e where pe: "pe = (p, e)" by (cases pe)
  show ?case
  proof (cases "resolve_entry e")
    case None
    with Cons.IH pe show ?thesis by simp
  next
    case (Some n)
    have "w \<le> w + provider_weight p" using provider_weight_pos [of p] by simp
    also have "\<dots> \<le> snd (weighted_loop rb (s + n * provider_weight p, w + provider_weight p))"
      by (rule Cons.IH)
    finally show ?thesis using Some pe by simp
  qed
qed

lemma weighted_loop_zero_iff:
  "snd (weighted_loop rb (s, w)) = w \<longleftrightarrow> list_all (\<lambda>(p, e). resolve_entry e = None) rb"
proof (induction rb arbitrary: s w)
  case Nil
  then show ?case by simp
next
  case (Cons pe rb)
  obtain p e where pe: "pe = (p, e)" by (cases pe)
  show ?case
  proof (cases "resolve_entry e")
    case None
    with Cons.IH pe show ?thesis by simp
  next
    case (Some n)
    have "w < w + provider_weight p" using provider_weight_pos [of p] by simp
    also have "\<dots> \<le> snd (weighted_loop rb (s + n * provider_weight p, w + provider_weight p))"
      by (rule weighted_loop_weight_ge)
    finally show ?thesis using Some pe by simp
  qed
qed

text \<open>
  The total weight is zero exactly when the loop skips every entry, and the default 6.0 is
  returned then.
\<close>

lemma calculateWeightedAverage_zero_weight:
  "calculateWeightedAverage None = 6 \<and>
   calculateWeightedAverage (Some []) = 6 \<and>
   calculateWeightedAverage (Some [(p, RNull)]) = 6 \<and>
   (snd (weighted_loop rb (0, 0)) = 0 \<longleftrightarrow> list_all (\<lambda>(p, e). e = RNull \<or> resolve_entry e = None) rb) \<and>
   (snd (weighted_loop rb (0, 0)) = 0 \<longrightarrow> calculateWeightedAverage (Some rb) = 6) \<and>
   (list_all (\<lambda>(p, e). e = RNull \<or> resolve_entry e = None) rb \<longrightarrow>
      calculateWeightedAverage (Some rb) = 6 \<and> calculateWeightedAverage (Some rb) \<noteq> 0)"
proof -
  have same: "(\<lambda>(p, e). e = RNull \<or> resolve_entry e = None) = (\<lambda>(p::string, e). resolve_entry e = None)"
    by (auto simp: fun_eq_iff)
  have iff: "snd (weighted_loop rb (0, 0)) = 0 \<longleftrightarrow> list_all (\<lambda>(p, e). e = RNull \<or> resolve_entry e = None) rb"
    unfolding same by (rule weighted_loop_zero_iff)
  have zero: "calculateWeightedAverage (Some rb) = 6" if "snd (weighted_loop rb (0, 0)) = 0"
    using that
    by (cases "weighted_loop rb (0, 0)") (simp add: calculateWeightedAverage_def DEFAULT_RATING_def)
  have c1: "calculateWeightedAverage None = 6"
    by (simp add: calculateWeightedAverage_def DEFAULT_RATING_def)
  have c2: "calculateWeightedAverage (Some []) = 6"
    by (simp add: calculateWeightedAverage_def DEFAULT_RATING_def)
  have c3: "calculateWeightedAverage (Some [(p, RNull)]) = 6"
    by (simp add: calculateWeightedAverage_def DEFAULT_RATING_def)
  show ?thesis using iff zero c1 c2 c3 by auto
qed

text \<open>
  C6 says that \<^verbatim>\<open>calculateWeightedAverage\<close> returns the default 6.0 for every breakdown in
  which each entry is \<^verbatim>\<open>null\<close> or resolves to a \<^verbatim>\<open>null\<close> normalized value, and never 0 for
  "no data". It does so for the empty breakdown, for a \<^verbatim>\<open>null\<close> entry and for a direct entry
  whose raw value is \<^verbatim>\<open>NaN\<close>. It does not for a trending entry whose raw value is \<^verbatim>\<open>NaN\<close> or
  a string: \<^verbatim>\<open>normalizeRating\<close> resolves it to \<^verbatim>\<open>null\<close>, but the loop computes
  \<^verbatim>\<open>Math.min(7.5, null)\<close>, which is 0, counts the entry with its weight and returns 0.
  Through \<^verbatim>\<open>calculateAverageRating\<close> the same entry is dropped and the result is 6.0.
\<close>

theorem calculateWeightedAverage_trending_no_data:
  "calculateWeightedAverage
     (Some [(''hse'', REntry \<lparr>raw = JNumber NaN, normalized = None, rtype = Some ''trending''\<rparr>)]) = 0 \<and>
   normalizeRating (JNumber NaN) (Some ''trending'') = None \<and>
   calculateWeightedAverage
     (Some [(''hse'', REntry \<lparr>raw = JStr ''x'', normalized = None, rtype = Some ''trending''\<rparr>)]) = 0 \<and>
   normalizeRating (JStr ''x'') (Some ''trending'') = None \<and>
   calculateWeightedAverage
     (Some [(''hse'', REntry \<lparr>raw = JNumber NaN, normalized = None, rtype = Some ''direct''\<rparr>)]) = 6 \<and>
   calculateAverageRating
     (Some [(''hse'', REntry \<lparr>raw = JNumber NaN, normalized = None, rtype = Some ''trending''\<rparr>)]) = 6 \<and>
   calculateWeightedAverage (Some []) = 6 \<and>
   calculateWeightedAverage (Some [(''hse'', RNull)]) = 6"
  by (simp add: rating_defs normalizeRating_def min_7_5_def)

text \<open>
  C2 says that the weighted average of merge and seeding resolves an entry of type
  \<^verbatim>\<open>'percentage'\<close>, \<^verbatim>\<open>'stars'\<close> or \<^verbatim>\<open>'trending'\<close> as \<^verbatim>\<open>normalizeRating\<close> does. The code does
  not: \<^verbatim>\<open>calculateAverageRating\<close> applies the direct rule to every type but \<^verbatim>\<open>'views'\<close>, and
  \<^verbatim>\<open>calculateWeightedAverage\<close> to every type but \<^verbatim>\<open>'views'\<close> and \<^verbatim>\<open>'trending'\<close>. A trending
  value 9 averages to 9 where the rule gives 7.5, 85 percent to 10 where the rule gives
  8.5, 4 stars to 4 where the rule gives 8.
\<close>

theorem calculateAverageRating_ignores_rating_type:
  "calculateAverageRating (Some [(''hse'', rating_entry_of (Fin 9) (Some ''trending''))]) = 9 \<and>
   normalizeRating (JNumber (Fin 9)) (Some ''trending'') = Some (15 / 2) \<and>
   calculateAverageRating (Some [(''htv'', rating_entry_of (Fin 85) (Some ''percentage''))]) = 10 \<and>
   calculateWeightedAverage (Some [(''htv'', rating_entry_of (Fin 85) (Some ''percentage''))]) = 10 \<and>
   normalizeRating (JNumber (Fin 85)) (Some ''percentage'') = Some (17 / 2) \<and>
   calculateAverageRating (Some [(''htv'', rating_entry_of (Fin 4) (Some ''stars''))]) = 4 \<and>
   calculateWeightedAverage (Some [(''htv'', rating_entry_of (Fin 4) (Some ''stars''))]) = 4 \<and>
   normalizeRating (JNumber (Fin 4)) (Some ''stars'') = Some 8 \<and>
   rating (seed (blank_series\<lparr>series_id := ''htv-x'', rating := Some (Fin 85),
                               ratingType := Some ''percentage''\<rparr>)) = Some (Fin 10)"
  by (simp add: rating_defs normalizeRating_def min_7_5_def seed_def getPrefixFromId_def string_defs blank_series_def Let_def)

subsection \<open>What a merge does to the incoming record\<close>

text \<open>
  When the incoming record becomes the primary, the merge works on a copy of it: an
  incoming record without containers of its own is left as it was.
\<close>

lemma newSeries_after_swap:
  "calculateMetadataScore newSeries > calculateMetadataScore existing \<Longrightarrow>
     providers newSeries = None \<Longrightarrow> providerSlugs newSeries = None \<Longrightarrow>
     ratingBreakdown newSeries = None \<Longrightarrow>
     newSeries_after getTime existing newSeries = newSeries"
  by (simp add: newSeries_after_def mergeSeries_def Let_def)

text \<open>
  C3 says that an incoming record that ends up as the secondary is left unchanged by the
  merge. The code writes to it: the incoming record below has a rating and no breakdown,
  the scores tie, so it is the secondary, and lines 248 to 254 create its
  \<^verbatim>\<open>ratingBreakdown\<close> and write its own entry. The path beside it does what the claim
  says: an incoming record that wins the comparison is copied first and comes out of the
  merge unchanged.
\<close>

theorem mergeSeries_writes_to_incoming_secondary:
  "secondary_of c3_existing c3_incoming = c3_incoming \<and>
   ratingBreakdown c3_incoming = None \<and>
   ratingBreakdown (newSeries_after no_dates c3_existing c3_incoming)
     = Some [(''htv'', rating_entry_of (Fin 5) None)] \<and>
   newSeries_after no_dates c3_existing c3_incoming \<noteq> c3_incoming \<and>
   primary_of c4_existing c4_rated = c4_rated \<and>
   newSeries_after no_dates c4_existing c4_rated = c4_rated"
proof -
  have rb: "ratingBreakdown (newSeries_after no_dates c3_existing c3_incoming)
     = Some [(''htv'', rating_entry_of (Fin 5) None)]"
    by (simp add: newSeries_after_def c3_existing_def c3_incoming_def merge_defs rating_defs
        string_defs Let_def)
  have none: "ratingBreakdown c3_incoming = None"
    by (simp add: c3_incoming_def blank_series_def)
  have sec: "secondary_of c3_existing c3_incoming = c3_incoming"
    by (simp add: c3_existing_def c3_incoming_def merge_defs string_defs)
  from rb none have changed: "newSeries_after no_dates c3_existing c3_incoming \<noteq> c3_incoming"
    by auto
  have swap: "calculateMetadataScore c4_rated > calculateMetadataScore c4_existing"
    by (simp add: c4_existing_def c4_rated_def merge_defs string_defs)
  then have prim: "primary_of c4_existing c4_rated = c4_rated"
    by (simp add: primary_of_def)
  have raw: "providers c4_rated = None" "providerSlugs c4_rated = None"
    "ratingBreakdown c4_rated = None"
    by (simp_all add: c4_rated_def blank_series_def)
  have kept: "newSeries_after no_dates c4_existing c4_rated = c4_rated"
    using swap raw by (rule newSeries_after_swap)
  from sec none rb changed prim kept show ?thesis by blast
qed

subsection \<open>The merged provider slugs\<close>

lemma providerSlugs_merged:
  "providerSlugs (merged_of getTime existing newSeries) =
     Some (let swap = (calculateMetadataScore newSeries > calculateMetadataScore existing);
               primary = primary_of existing newSeries;
               secondary = secondary_of existing newSeries;
               secondaryPrefix = getPrefixFromId (series_id secondary);
               slugs1 = own_slugs primary;
               existing_slugs = (if swap then providerSlugs existing else Some slugs1);
               slugs2 = (case existing_slugs of None \<Rightarrow> slugs1 | Some m \<Rightarrow> assign slugs1 m)
           in AList.update secondaryPrefix (slug_of secondaryPrefix (series_id secondary)) slugs2)"
  by (simp add: merged_of_def mergeSeries_def primary_of_def secondary_of_def own_slugs_def Let_def)

text \<open>
  C4 (as amended). The merged \<^verbatim>\<open>providerSlugs\<close> holds, at the secondary's prefix, the slug
  derived from the secondary's id, whatever the primary had there. When the existing
  record is the secondary, every entry of its \<^verbatim>\<open>providerSlugs\<close> overwrites the primary's.
  The primary's own mapping is kept at the remaining keys.
\<close>

theorem mergeSeries_providerSlugs:
  assumes wf: "wf_object (providerSlugs existing)"
  shows "\<exists>slugs. providerSlugs (merged_of getTime existing newSeries) = Some slugs \<and>
           map_of slugs (getPrefixFromId (series_id (secondary_of existing newSeries)))
             = Some (slug_of (getPrefixFromId (series_id (secondary_of existing newSeries)))
                       (series_id (secondary_of existing newSeries))) \<and>
           (\<forall>k v. k \<noteq> getPrefixFromId (series_id (secondary_of existing newSeries)) \<and>
                  secondary_of existing newSeries = existing \<and>
                  lookup (providerSlugs existing) k = Some v
                   \<longrightarrow> map_of slugs k = Some v) \<and>
           (\<forall>k. k \<noteq> getPrefixFromId (series_id (secondary_of existing newSeries)) \<and>
                (primary_of existing newSeries = existing \<or> lookup (providerSlugs existing) k = None)
                   \<longrightarrow> map_of slugs k = map_of (own_slugs (primary_of existing newSeries)) k)"
proof -
  define swap where "swap = (calculateMetadataScore newSeries > calculateMetadataScore existing)"
  define primary where "primary = primary_of existing newSeries"
  define secondary where "secondary = secondary_of existing newSeries"
  define sp where "sp = getPrefixFromId (series_id secondary)"
  define slugs1 where "slugs1 = own_slugs primary"
  define existing_slugs where "existing_slugs = (if swap then providerSlugs existing else Some slugs1)"
  define slugs2 where "slugs2 = (case existing_slugs of None \<Rightarrow> slugs1 | Some m \<Rightarrow> assign slugs1 m)"
  define slugs3 where "slugs3 = AList.update sp (slug_of sp (series_id secondary)) slugs2"
  have merged: "providerSlugs (merged_of getTime existing newSeries) = Some slugs3"
    unfolding providerSlugs_merged slugs3_def slugs2_def existing_slugs_def slugs1_def sp_def
      secondary_def primary_def swap_def Let_def by simp
  have own: "map_of slugs3 sp = Some (slug_of sp (series_id secondary))"
    by (simp add: slugs3_def update_conv')
  have other: "map_of slugs3 k = map_of slugs2 k" if "k \<noteq> sp" for k
    using that by (simp add: slugs3_def update_conv')
  have wf1: "\<not> swap \<Longrightarrow> distinct (map fst slugs1)"
    using wf
    by (auto simp: slugs1_def primary_def primary_of_def swap_def own_slugs_def wf_object_def
        split: option.splits)
  have from_existing: "map_of slugs2 k = Some v"
    if "secondary = existing" and "lookup (providerSlugs existing) k = Some v" for k v
  proof (cases swap)
    case True
    with that wf show ?thesis
      by (auto simp: slugs2_def existing_slugs_def lookup_def wf_object_def map_of_assign_Some
          split: option.splits)
  next
    case False
    then have "primary = existing" by (simp add: primary_def primary_of_def swap_def)
    with that have "map_of slugs1 k = Some v"
      by (auto simp: slugs1_def own_slugs_def lookup_def split: option.splits)
    with False wf1 show ?thesis
      by (simp add: slugs2_def existing_slugs_def map_of_assign_self)
  qed
  have kept: "map_of slugs2 k = map_of slugs1 k"
    if "primary = existing \<or> lookup (providerSlugs existing) k = None" for k
  proof (cases swap)
    case False
    with wf1 show ?thesis by (simp add: slugs2_def existing_slugs_def map_of_assign_self)
  next
    case True
    show ?thesis
    proof (cases "providerSlugs existing")
      case None
      with True show ?thesis by (simp add: slugs2_def existing_slugs_def)
    next
      case (Some m)
      from that have "map_of slugs1 k = map_of m k \<or> map_of m k = None"
        using Some by (auto simp: slugs1_def own_slugs_def lookup_def)
      moreover have d: "distinct (map fst m)" using wf Some by (simp add: wf_object_def)
      ultimately show ?thesis
        using True Some
        by (auto simp: slugs2_def existing_slugs_def map_of_assign [OF d] map_add_def
            split: option.splits)
    qed
  qed
  have c2: "\<forall>k v. k \<noteq> sp \<and> secondary = existing \<and> lookup (providerSlugs existing) k = Some v
                 \<longrightarrow> map_of slugs3 k = Some v"
    using other from_existing by simp
  have c3: "\<forall>k. k \<noteq> sp \<and> (primary = existing \<or> lookup (providerSlugs existing) k = None)
               \<longrightarrow> map_of slugs3 k = map_of slugs1 k"
    using other kept by simp
  from merged own c2 c3
  have "\<exists>slugs. providerSlugs (merged_of getTime existing newSeries) = Some slugs \<and>
          map_of slugs sp = Some (slug_of sp (series_id secondary)) \<and>
          (\<forall>k v. k \<noteq> sp \<and> secondary = existing \<and> lookup (providerSlugs existing) k = Some v
                 \<longrightarrow> map_of slugs k = Some v) \<and>
          (\<forall>k. k \<noteq> sp \<and> (primary = existing \<or> lookup (providerSlugs existing) k = None)
               \<longrightarrow> map_of slugs k = map_of slugs1 k)"
    by blast
  then show ?thesis
    unfolding sp_def secondary_def primary_def slugs1_def .
qed

text \<open>
  C4 as stated fails: the existing record is the primary and has the slug \<^verbatim>\<open>old\<close> for
  \<^verbatim>\<open>htv\<close>; the incoming \<^verbatim>\<open>htv\<close> record's slug \<^verbatim>\<open>new\<close> replaces it.
\<close>

theorem mergeSeries_providerSlugs_counterexample:
  "primary_of c4_existing c4_incoming = c4_existing \<and>
   lookup (providerSlugs c4_existing) ''htv'' = Some ''old'' \<and>
   getPrefixFromId (series_id c4_incoming) = ''htv'' \<and>
   slug_of ''htv'' (series_id c4_incoming) = ''new'' \<and>
   lookup (providerSlugs (merged_of no_dates c4_existing c4_incoming)) ''htv'' = Some ''new'' \<and>
   lookup (providerSlugs (merged_of no_dates c4_existing c4_incoming)) ''htv''
     \<noteq> lookup (providerSlugs c4_existing) ''htv''"
  by (simp add: c4_existing_def c4_incoming_def merge_defs rating_defs string_defs Let_def)

text \<open>
  The amended statement at the same two records, and at the existing record with an
  incoming record that becomes the primary: its own slug \<^verbatim>\<open>new\<close> for \<^verbatim>\<open>htv\<close> is then
  overwritten by the existing record's \<^verbatim>\<open>old\<close>.
\<close>

theorem mergeSeries_providerSlugs_witness:
  "wf_object (providerSlugs c4_existing) \<and>
   (\<exists>slugs. providerSlugs (merged_of no_dates c4_existing c4_incoming) = Some slugs \<and>
      map_of slugs ''htv'' = Some ''new'' \<and> map_of slugs ''hmm'' = Some ''x'') \<and>
   secondary_of c4_existing c4_rated = c4_existing \<and>
   (\<exists>slugs. providerSlugs (merged_of no_dates c4_existing c4_rated) = Some slugs \<and>
      map_of slugs ''htv'' = Some ''old'' \<and> map_of slugs ''hmm'' = Some ''x'')"
proof -
  have wf: "wf_object (providerSlugs c4_existing)"
    by (simp add: c4_existing_def merge_defs)
  have facts: "secondary_of c4_existing c4_incoming = c4_incoming \<and>
     primary_of c4_existing c4_incoming = c4_existing \<and>
     getPrefixFromId (series_id c4_incoming) = ''htv'' \<and>
     slug_of ''htv'' (series_id c4_incoming) = ''new'' \<and>
     map_of (own_slugs c4_existing) ''hmm'' = Some ''x''"
    by (simp add: c4_existing_def c4_incoming_def own_slugs_def merge_defs string_defs)
  from mergeSeries_providerSlugs [OF wf, of no_dates c4_incoming]
  obtain slugs where m: "providerSlugs (merged_of no_dates c4_existing c4_incoming) = Some slugs"
    and own: "map_of slugs (getPrefixFromId (series_id (secondary_of c4_existing c4_incoming)))
             = Some (slug_of (getPrefixFromId (series_id (secondary_of c4_existing c4_incoming)))
                       (series_id (secondary_of c4_existing c4_incoming)))"
    and kept: "\<forall>k. k \<noteq> getPrefixFromId (series_id (secondary_of c4_existing c4_incoming)) \<and>
                (primary_of c4_existing c4_incoming = c4_existing
                   \<or> lookup (providerSlugs c4_existing) k = None)
                   \<longrightarrow> map_of slugs k = map_of (own_slugs (primary_of c4_existing c4_incoming)) k"
    by blast
  from own facts have htv: "map_of slugs ''htv'' = Some ''new''" by simp
  from kept [rule_format, of "''hmm''"] facts have hmm: "map_of slugs ''hmm'' = Some ''x''" by simp
  have facts': "secondary_of c4_existing c4_rated = c4_existing \<and>
     getPrefixFromId (series_id c4_existing) = ''hmm'' \<and>
     slug_of ''hmm'' (series_id c4_existing) = ''x'' \<and>
     lookup (providerSlugs c4_existing) ''htv'' = Some ''old''"
    by (simp add: c4_existing_def c4_rated_def merge_defs string_defs)
  from mergeSeries_providerSlugs [OF wf, of no_dates c4_rated]
  obtain slugs' where m': "providerSlugs (merged_of no_dates c4_existing c4_rated) = Some slugs'"
    and own': "map_of slugs' (getPrefixFromId (series_id (secondary_of c4_existing c4_rated)))
             = Some (slug_of (getPrefixFromId (series_id (secondary_of c4_existing c4_rated)))
                       (series_id (secondary_of c4_existing c4_rated)))"
    and over: "\<forall>k v. k \<noteq> getPrefixFromId (series_id (secondary_of c4_existing c4_rated)) \<and>
                  secondary_of c4_existing c4_rated = c4_existing \<and>
                  lookup (providerSlugs c4_existing) k = Some v
                   \<longrightarrow> map_of slugs' k = Some v"
    by blast
  from own' facts' have hmm': "map_of slugs' ''hmm'' = Some ''x''" by simp
  from over [rule_format, of "''htv''" "''old''"] facts'
  have htv': "map_of slugs' ''htv'' = Some ''old''" by simp
  from wf m htv hmm facts' m' htv' hmm' show ?thesis by blast
qed

subsection \<open>Merging the same record again\<close>

text \<open>
  C5 says that merging the same secondary again gives the same rating and the same set of
  genres. At these two records the genres stay, the rating does not: the first merge gives
  7.0 from the ratings 8 (weight 5) and 2 (weight 1); the merged record has lost its only
  genre to the studio filter, the second merge therefore swaps, and the merged record, now
  the secondary, has its average 7.0 written over the raw rating 8 of its provider: the
  rating becomes 6.2.
\<close>

theorem mergeSeries_remerge_changes_rating:
  "isDuplicate c5_a c5_b \<and>
   rating (merged_of no_dates c5_a c5_b) = Some (Fin 7) \<and>
   genres (merged_of no_dates c5_a c5_b) = Some [] \<and>
   rating (remerge no_dates c5_a c5_b) = Some (Fin (31 / 5)) \<and>
   genres (remerge no_dates c5_a c5_b) = Some [] \<and>
   rating (merged_of no_dates (merged_of no_dates c5_a c5_b) c5_b) = Some (Fin (31 / 5))"
proof -
  have dup: "isDuplicate c5_a c5_b"
    by (simp add: isDuplicate_def c5_a_def c5_b_def blank_series_def)
  have first: "mergeSeries no_dates c5_a c5_b =
    (c5_a\<lparr>providers := Some [''hmm'', ''htv''],
           providerSlugs := Some [(''hmm'', ''x''), (''htv'', ''x'')],
           ratingBreakdown := Some [(''hmm'', rating_entry_of (Fin 8) None),
                                    (''htv'', rating_entry_of (Fin 2) None)],
           rating := Some (Fin 7), genres := Some [], metadataScore := Some 1\<rparr>,
     c5_a\<lparr>providers := Some [''hmm'', ''htv''],
           providerSlugs := Some [(''hmm'', ''x''), (''htv'', ''x'')],
           ratingBreakdown := Some [(''hmm'', rating_entry_of (Fin 8) None),
                                    (''htv'', rating_entry_of (Fin 2) None)],
           rating := Some (Fin 7), genres := Some [], metadataScore := Some 1\<rparr>,
     c5_b\<lparr>ratingBreakdown := Some [(''htv'', rating_entry_of (Fin 2) None)]\<rparr>)"
    by (simp add: c5_a_def c5_b_def merge_defs rating_defs string_defs Let_def)
  have r1: "rating (merged_of no_dates c5_a c5_b) = Some (Fin 7)"
    and g1: "genres (merged_of no_dates c5_a c5_b) = Some []"
    by (simp_all add: merged_of_def first)
  have r2: "rating (remerge no_dates c5_a c5_b) = Some (Fin (31 / 5))"
    unfolding remerge_def newSeries_after_def merged_of_def first
    by (simp add: c5_a_def c5_b_def merge_defs rating_defs string_defs Let_def)
  have g2: "genres (remerge no_dates c5_a c5_b) = Some []"
    unfolding remerge_def newSeries_after_def merged_of_def first
    by (simp add: c5_a_def c5_b_def merge_defs rating_defs string_defs Let_def)
  have r3: "rating (merged_of no_dates (merged_of no_dates c5_a c5_b) c5_b) = Some (Fin (31 / 5))"
    unfolding merged_of_def first
    by (simp add: c5_a_def c5_b_def merge_defs rating_defs string_defs Let_def)
  from dup r1 g1 r2 g2 r3 show ?thesis by blast
qed

subsection \<open>Duplicates and records without a name\<close>



















subsection \<open>The final sort\<close>

lemma flip_sign:
  fixes x y :: int
  assumes "sgn x = - sgn y"
  shows "(x < 0 \<longleftrightarrow> 0 < y) \<and> (x = 0 \<longleftrightarrow> y = 0) \<and> (0 < x \<longleftrightarrow> y < 0)"
proof -
  have a: "x < 0 \<longleftrightarrow> 0 < y"
  proof
    assume "x < 0"
    then have "sgn x = - 1" by simp
    with assms have "sgn y = 1" by simp
    then show "0 < y" by (simp add: sgn_1_pos)
  next
    assume "0 < y"
    then have "sgn y = 1" by simp
    with assms have "sgn x = - 1" by simp
    then show "x < 0" by (simp add: sgn_1_neg)
  qed
  have b: "x = 0 \<longleftrightarrow> y = 0"
  proof
    assume "x = 0"
    with assms have "sgn y = 0" by simp
    then show "y = 0" by (simp add: sgn_0_0)
  next
    assume "y = 0"
    with assms have "sgn x = 0" by simp
    then show "x = 0" by (simp add: sgn_0_0)
  qed
  have c: "0 < x \<longleftrightarrow> y < 0"
  proof
    assume "0 < x"
    then have "sgn x = 1" by simp
    with assms have "sgn y = - 1" by simp
    then show "y < 0" by (simp add: sgn_1_neg)
  next
    assume "y < 0"
    then have "sgn y = - 1" by simp
    with assms have "sgn x = 1" by simp
    then show "0 < x" by (simp add: sgn_1_pos)
  qed
  from a b c show ?thesis by blast
qed

lemma flip_sign_conv:
  fixes x y :: int
  assumes "(x < 0 \<longleftrightarrow> 0 < y) \<and> (x = 0 \<longleftrightarrow> y = 0)"
  shows "sgn x = - sgn y"
proof -
  consider "x < 0" | "x = 0" | "0 < x" by linarith
  then show ?thesis
  proof cases
    case 1
    with assms have "0 < y" by blast
    with 1 show ?thesis by simp
  next
    case 2
    with assms have "y = 0" by blast
    with 2 show ?thesis by simp
  next
    case 3
    with assms have "y < 0" by linarith
    with 3 show ?thesis by simp
  qed
qed

lemma consistent_total:
  assumes "consistent_comparator cmp" and "\<not> cmp a b \<le> 0"
  shows "cmp b a \<le> 0"
proof -
  from assms(1) have "sgn (cmp a b) = - sgn (cmp b a)"
    unfolding consistent_comparator_def by blast
  from flip_sign [OF this] assms(2) show ?thesis by linarith
qed

lemma consistent_trans:
  "consistent_comparator cmp \<Longrightarrow> cmp a b \<le> 0 \<Longrightarrow> cmp b c \<le> 0 \<Longrightarrow> cmp a c \<le> 0"
  unfolding consistent_comparator_def by blast

lemma consistent_zero_iff:
  assumes "consistent_comparator cmp"
  shows "cmp a b = 0 \<longleftrightarrow> cmp a b \<le> 0 \<and> cmp b a \<le> 0"
proof -
  from assms have "sgn (cmp a b) = - sgn (cmp b a)"
    unfolding consistent_comparator_def by blast
  from flip_sign [OF this] show ?thesis by linarith
qed

lemma set_insert_sorted: "set (insert_sorted cmp x ys) = insert x (set ys)"
  by (induction ys) auto

lemma mset_insert_sorted: "mset (insert_sorted cmp x ys) = add_mset x (mset ys)"
  by (induction ys) auto

lemma mset_js_sort: "mset (js_sort cmp xs) = mset xs"
  by (induction xs) (auto simp: js_sort_def mset_insert_sorted)

lemma sorted_insert_sorted:
  assumes cc: "consistent_comparator cmp"
  shows "sorted_wrt (\<lambda>a b. cmp a b \<le> 0) ys \<Longrightarrow>
           sorted_wrt (\<lambda>a b. cmp a b \<le> 0) (insert_sorted cmp x ys)"
proof (induction ys)
  case Nil
  then show ?case by simp
next
  case (Cons y ys)
  show ?case
  proof (cases "cmp x y \<le> 0")
    case True
    have "cmp x z \<le> 0" if "z \<in> set ys" for z
    proof -
      from Cons.prems that have "cmp y z \<le> 0" by simp
      with True show ?thesis by (rule consistent_trans [OF cc])
    qed
    with True Cons.prems show ?thesis by simp
  next
    case False
    then have "cmp y x \<le> 0" by (rule consistent_total [OF cc])
    moreover from Cons.prems have "sorted_wrt (\<lambda>a b. cmp a b \<le> 0) (insert_sorted cmp x ys)"
      by (simp add: Cons.IH)
    ultimately show ?thesis
      using False Cons.prems by (auto simp: set_insert_sorted)
  qed
qed

lemma sorted_js_sort:
  "consistent_comparator cmp \<Longrightarrow> sorted_wrt (\<lambda>a b. cmp a b \<le> 0) (js_sort cmp xs)"
  by (induction xs) (auto simp: js_sort_def sorted_insert_sorted)

lemma filter_insert_sorted_out:
  "\<not> P x \<Longrightarrow> filter P (insert_sorted cmp x ys) = filter P ys"
  by (induction ys) auto

lemma filter_insert_sorted_in:
  assumes cc: "consistent_comparator cmp" and zx: "cmp z x = 0"
  shows "filter (\<lambda>y. cmp z y = 0) (insert_sorted cmp x ys) = x # filter (\<lambda>y. cmp z y = 0) ys"
proof (induction ys)
  case Nil
  from zx show ?case by simp
next
  case (Cons y ys)
  show ?case
  proof (cases "cmp x y \<le> 0")
    case True
    with zx show ?thesis by simp
  next
    case False
    have "cmp z y \<noteq> 0"
    proof
      assume zy: "cmp z y = 0"
      from zx have "cmp x z \<le> 0" by (simp add: consistent_zero_iff [OF cc])
      moreover from zy have "cmp z y \<le> 0" by simp
      ultimately have "cmp x y \<le> 0" by (rule consistent_trans [OF cc])
      with False show False by simp
    qed
    with False Cons.IH show ?thesis by simp
  qed
qed

lemma js_sort_stable:
  assumes cc: "consistent_comparator cmp"
  shows "filter (\<lambda>y. cmp z y = 0) (js_sort cmp xs) = filter (\<lambda>y. cmp z y = 0) xs"
proof (induction xs)
  case Nil
  then show ?case by (simp add: js_sort_def)
next
  case (Cons x xs)
  have unfold: "js_sort cmp (x # xs) = insert_sorted cmp x (js_sort cmp xs)"
    by (simp add: js_sort_def)
  show ?case
  proof (cases "cmp z x = 0")
    case True
    with Cons.IH show ?thesis
      by (simp add: unfold filter_insert_sorted_in [OF cc])
  next
    case False
    with Cons.IH show ?thesis
      by (simp add: unfold filter_insert_sorted_out)
  qed
qed

lemma compare_series_le_iff:
  "compare_series lc a b \<le> 0 \<longleftrightarrow> ranks_before lc a b"
  unfolding compare_series_def ranks_before_def Let_def by auto

lemma compare_series_consistent:
  assumes cc: "consistent_comparator lc"
  shows "consistent_comparator (compare_series lc)"
proof -
  have flip: "sgn (compare_series lc a b) = - sgn (compare_series lc b a)" for a b
  proof -
    from cc have "sgn (lc (str_or_empty (name a)) (str_or_empty (name b)))
        = - sgn (lc (str_or_empty (name b)) (str_or_empty (name a)))"
      unfolding consistent_comparator_def by blast
    from flip_sign [OF this]
    have "(compare_series lc a b < 0 \<longleftrightarrow> 0 < compare_series lc b a) \<and>
          (compare_series lc a b = 0 \<longleftrightarrow> compare_series lc b a = 0)"
      unfolding compare_series_def Let_def by auto
    then show ?thesis by (rule flip_sign_conv)
  qed
  have trans: "compare_series lc a c \<le> 0"
    if ab: "compare_series lc a b \<le> 0" and bc: "compare_series lc b c \<le> 0" for a b c
  proof -
    have names: "lc (str_or_empty (name a)) (str_or_empty (name c)) \<le> 0"
      if "lc (str_or_empty (name a)) (str_or_empty (name b)) \<le> 0"
        and "lc (str_or_empty (name b)) (str_or_empty (name c)) \<le> 0"
      using that by (rule consistent_trans [OF cc])
    from ab bc names show ?thesis
      unfolding compare_series_le_iff ranks_before_def by auto
  qed
  from flip trans show ?thesis
    unfolding consistent_comparator_def by blast
qed

text \<open>
  C8. Given a consistent \<^verbatim>\<open>localeCompare\<close>, the result of the aggregator is sorted by
  metadata score descending, then provider count descending, then name ascending; it is
  a permutation of the accumulated records in which records that compare as equal keep
  their order; and of two records with equal score the one with more providers comes
  first.
\<close>

theorem aggregateCatalogs_sorted:
  assumes cc: "consistent_comparator localeCompare"
  shows "sorted_wrt (ranks_before localeCompare)
           (aggregateCatalogs getTime localeCompare providerCatalogs) \<and>
         mset (aggregateCatalogs getTime localeCompare providerCatalogs)
           = mset (accumulate getTime providerCatalogs) \<and>
         (\<forall>x. filter (\<lambda>y. compare_series localeCompare x y = 0)
                  (aggregateCatalogs getTime localeCompare providerCatalogs)
               = filter (\<lambda>y. compare_series localeCompare x y = 0)
                   (accumulate getTime providerCatalogs)) \<and>
         (\<forall>i j. i < length (aggregateCatalogs getTime localeCompare providerCatalogs) \<and>
                j < length (aggregateCatalogs getTime localeCompare providerCatalogs) \<and>
                score_or_0 (aggregateCatalogs getTime localeCompare providerCatalogs ! i)
                  = score_or_0 (aggregateCatalogs getTime localeCompare providerCatalogs ! j) \<and>
                provider_count (aggregateCatalogs getTime localeCompare providerCatalogs ! i)
                  > provider_count (aggregateCatalogs getTime localeCompare providerCatalogs ! j)
                \<longrightarrow> i < j)"
proof -
  define out where "out = aggregateCatalogs getTime localeCompare providerCatalogs"
  define acc where "acc = accumulate getTime providerCatalogs"
  have out: "out = js_sort (compare_series localeCompare) acc"
    by (simp add: out_def acc_def aggregateCatalogs_def)
  note ccs = compare_series_consistent [OF cc]
  have "sorted_wrt (\<lambda>a b. compare_series localeCompare a b \<le> 0) out"
    unfolding out using ccs by (rule sorted_js_sort)
  then have sorted: "sorted_wrt (ranks_before localeCompare) out"
    by (simp add: compare_series_le_iff)
  have perm: "mset out = mset acc"
    by (simp add: out mset_js_sort)
  have stable: "\<forall>x. filter (\<lambda>y. compare_series localeCompare x y = 0) out
               = filter (\<lambda>y. compare_series localeCompare x y = 0) acc"
    unfolding out using js_sort_stable [OF ccs] by blast
  have first: "i < j"
    if i: "i < length out" and j: "j < length out"
      and score: "score_or_0 (out ! i) = score_or_0 (out ! j)"
      and more: "provider_count (out ! i) > provider_count (out ! j)" for i j
  proof (rule ccontr)
    assume "\<not> i < j"
    with more have "j < i" by (cases "i = j") auto
    with sorted i have "ranks_before localeCompare (out ! j) (out ! i)"
      by (simp add: sorted_wrt_iff_nth_less)
    with score more show False by (simp add: ranks_before_def)
  qed
  from sorted perm stable first show ?thesis
    unfolding out_def acc_def by blast
qed

lemma ascii_compare_consistent: "consistent_comparator ascii_compare"
proof -
  have "(ascii_compare a b < 0 \<longleftrightarrow> 0 < ascii_compare b a) \<and>
        (ascii_compare a b = 0 \<longleftrightarrow> ascii_compare b a = 0)" for a b
    by (auto simp: ascii_compare_def)
  then have flip: "sgn (ascii_compare a b) = - sgn (ascii_compare b a)" for a b
    by (rule flip_sign_conv)
  have trans: "ascii_compare a c \<le> 0"
    if "ascii_compare a b \<le> 0" and "ascii_compare b c \<le> 0" for a b c
    using that by (auto simp: ascii_compare_def split: if_splits)
  from flip trans show ?thesis
    unfolding consistent_comparator_def by blast
qed

lemma nn_foo: "normalizeName (Some ''Foo The Animation'') = ''foo the animation''"
  by code_simp
lemma nn_foo2: "normalizeName (Some ''foo the animation'') = ''foo the animation''"
  by code_simp
lemma nn_bar: "normalizeName (Some ''Bar'') = ''bar''"
  by code_simp
lemma lev_fb: "levenshteinDistance ''foo the animation'' ''bar'' = 16"
  by code_simp
lemma sim_fb: "similarity ''foo the animation'' ''bar'' = 1 / 17"
  by (simp add: similarity_def lev_fb)
lemma sim_fb': "similarity ''bar'' ''foo the animation'' = 1 / 17"
  by (simp add: similarity_def lev_fb)

lemma c8_result:
  "map (\<lambda>s. (series_id s, score_or_0 s, provider_count s))
       (aggregateCatalogs no_dates ascii_compare c8_catalogs)
     = [(''hmm-foo'', 1, 2), (''hmm-bar'', 1, 1)]"
  by (simp add: aggregateCatalogs_def accumulate_def aggregate_step_def c8_catalogs_def seed_def isDuplicate_def
    nn_foo nn_foo2 nn_bar sim_fb sim_fb'
    js_sort_def compare_series_def provider_count_def score_or_0_def ascii_compare_def
    merge_defs rating_defs string_defs Let_def)

text \<open>
  The example catalogs give two records of score 1; the one merged from two providers
  comes first although its name comes second.
\<close>

theorem aggregateCatalogs_sorted_witness:
  "consistent_comparator ascii_compare \<and>
   map (\<lambda>s. (series_id s, score_or_0 s, provider_count s))
       (aggregateCatalogs no_dates ascii_compare c8_catalogs)
     = [(''hmm-foo'', 1, 2), (''hmm-bar'', 1, 1)] \<and>
   sorted_wrt (ranks_before ascii_compare) (aggregateCatalogs no_dates ascii_compare c8_catalogs)"
  using aggregateCatalogs_sorted [OF ascii_compare_consistent, of no_dates c8_catalogs]
    ascii_compare_consistent c8_result
  by blast

end
